theory Spec2Isabelle
  imports Complex_Main "HOL-Library.Word" "HOL-Library.Sublist"
begin

section \<open>Values shared by the modules\<close>

text \<open>
  A \<open>Uint8Array\<close> is a list of 8-bit words. Binary strings, base64 text, messages and
  identifiers are HOL strings, whose characters are the code units 0..255; text that may
  hold any character (a password, JSON text) has a type of its own, see the platform
  below. A thrown error is a value carrying the \<open>name\<close> and \<open>message\<close> properties that
  the \<open>catch\<close> blocks of the source inspect.
\<close>

type_synonym byte = "8 word"
type_synonym bytes = "byte list"

datatype js_error = JSError (name: string) (message: string)

text \<open>\<open>new Error(msg)\<close>\<close>

definition Error :: "string \<Rightarrow> js_error" where
  "Error msg = JSError ''Error'' msg"

section \<open>The platform's base64 functions\<close>

text \<open>
  \<open>btoa\<close> and \<open>atob\<close> are the browser's functions; they are written out here after
  the HTML standard (forgiving-base64 encode and decode, over the alphabet of RFC 4648).
\<close>

definition b64_alphabet :: string where
  "b64_alphabet = ''ABCDEFGHIJKLMNOPQRSTUVWXYZabcdefghijklmnopqrstuvwxyz0123456789+/''"

definition b64_char :: "nat \<Rightarrow> char" where
  "b64_char i = b64_alphabet ! i"

fun index_of :: "'a \<Rightarrow> 'a list \<Rightarrow> nat option" where
  "index_of x [] = None"
| "index_of x (y # ys) = (if x = y then Some 0 else map_option Suc (index_of x ys))"

definition b64_index :: "char \<Rightarrow> nat option" where
  "b64_index c = index_of c b64_alphabet"

text \<open>
  Encoding takes three bytes (24 bits) at a time and emits four 6-bit indices; a last
  group of one or two bytes is padded with zero bits and completed with \<open>=\<close>.
\<close>

fun b64_encode :: "bytes \<Rightarrow> string" where
  "b64_encode [] = []"
| "b64_encode [a] =
     [b64_char (unat a div 4), b64_char (unat a mod 4 * 16), CHR ''='', CHR ''='']"
| "b64_encode [a, b] =
     [b64_char (unat a div 4), b64_char (unat a mod 4 * 16 + unat b div 16),
      b64_char (unat b mod 16 * 4), CHR ''='']"
| "b64_encode (a # b # c # r) =
     [b64_char (unat a div 4), b64_char (unat a mod 4 * 16 + unat b div 16),
      b64_char (unat b mod 16 * 4 + unat c div 64), b64_char (unat c mod 64)]
     @ b64_encode r"

text \<open>\<open>btoa(binary)\<close>: each character of the binary string stands for the byte of its code.\<close>

definition btoa :: "string \<Rightarrow> string" where
  "btoa binary = b64_encode (map (\<lambda>c. of_nat (of_char c)) binary)"

definition ascii_whitespace :: "char \<Rightarrow> bool" where
  "ascii_whitespace c = (of_char c \<in> {9, 10, 12, 13, 32 :: nat})"

text \<open>If the data ends with one or two \<open>=\<close>, remove them.\<close>

definition strip_padding :: "string \<Rightarrow> string" where
  "strip_padding d =
     (if d \<noteq> [] \<and> last d = CHR ''='' then
        (let d' = butlast d
         in if d' \<noteq> [] \<and> last d' = CHR ''='' then butlast d' else d')
      else d)"

text \<open>Every remaining character must belong to the alphabet; \<open>None\<close> is the failure.\<close>

fun sextets_of :: "string \<Rightarrow> nat list option" where
  "sextets_of [] = Some []"
| "sextets_of (c # cs) =
     (case b64_index c of
        None \<Rightarrow> None
      | Some i \<Rightarrow> map_option ((#) i) (sextets_of cs))"

text \<open>
  Four indices give three bytes; a rest of three indices gives two bytes (the last two
  bits are discarded), a rest of two gives one byte (the last four bits are discarded).
\<close>

fun b64_decode :: "nat list \<Rightarrow> bytes" where
  "b64_decode (w # x # y # z # r) =
     [of_nat (w * 4 + x div 16), of_nat (x mod 16 * 16 + y div 4), of_nat (y mod 4 * 64 + z)]
     @ b64_decode r"
| "b64_decode [w, x, y] = [of_nat (w * 4 + x div 16), of_nat (x mod 16 * 16 + y div 4)]"
| "b64_decode [w, x] = [of_nat (w * 4 + x div 16)]"
| "b64_decode [w] = []"
| "b64_decode [] = []"

text \<open>\<open>String.fromCharCode(b)\<close> for a byte \<open>b\<close>.\<close>

definition fromCharCode :: "byte \<Rightarrow> char" where
  "fromCharCode b = char_of (unat b)"

text \<open>\<open>atob(data)\<close>; \<open>None\<close> stands for the \<open>InvalidCharacterError\<close> it throws.\<close>

definition atob :: "string \<Rightarrow> string option" where
  "atob data =
     (let d = filter (\<lambda>c. \<not> ascii_whitespace c) data;
          d = (if length d mod 4 = 0 then strip_padding d else d)
      in if length d mod 4 = 1 then None
         else map_option (\<lambda>s. map fromCharCode (b64_decode s)) (sextets_of d))"

section \<open>CryptoModule: the transport codec\<close>

text \<open>
  \<open>arrayBufferToBase64\<close>: the loop appends \<open>String.fromCharCode(bytes[i])\<close> to
  \<open>binary\<close> for every index, then the string goes through \<open>btoa\<close>.
\<close>

fun toBinary_loop :: "bytes \<Rightarrow> string \<Rightarrow> string" where
  "toBinary_loop [] binary = binary"
| "toBinary_loop (b # bs) binary = toBinary_loop bs (binary @ [fromCharCode b])"

definition arrayBufferToBase64 :: "bytes \<Rightarrow> string" where
  "arrayBufferToBase64 buffer = btoa (toBinary_loop buffer [])"

text \<open>
  \<open>base64ToArrayBuffer\<close>: \<open>bytes\<close> starts as \<open>binary.length\<close> zero bytes and the loop
  stores \<open>binary.charCodeAt(i)\<close> at index \<open>i\<close> (a store into a \<open>Uint8Array\<close> keeps the
  low eight bits). The failure of \<open>atob\<close> propagates.
\<close>

function toBytes_loop :: "string \<Rightarrow> nat \<Rightarrow> bytes \<Rightarrow> bytes" where
  "toBytes_loop binary i bs =
     (if i < length binary
      then toBytes_loop binary (i + 1) (bs[i := of_nat (of_char (binary ! i))])
      else bs)"
  by pat_completeness auto
termination
  by (relation "measure (\<lambda>(binary, i, bs). length binary - i)") auto

definition base64ToArrayBuffer :: "string \<Rightarrow> bytes option" where
  "base64ToArrayBuffer base64 =
     (case atob base64 of
        None \<Rightarrow> None
      | Some binary \<Rightarrow> Some (toBytes_loop binary 0 (replicate (length binary) 0)))"


section \<open>The browser as a parameter\<close>

text \<open>
  Web Crypto, \<open>TextEncoder\<close>/\<open>TextDecoder\<close>, \<open>JSON\<close>, \<open>fetch\<close> and the wording of the
  engine's own exceptions are not code of this repository; the modules receive them as a
  record. \<open>'d\<close> is the type of the data objects handed to \<open>JSON.stringify\<close>, \<open>'t\<close> the
  type of arbitrary text (passwords, JSON text). A rejected promise is \<open>Inl\<close> of the error.
\<close>

datatype jsvalue =
    JUndefined
  | JNull
  | JString string
  | JObject "(string \<times> jsvalue) list"

record put_body =
  commit_message :: string
  body_content :: string
  branch_name :: string
  body_sha :: "jsvalue option"

record request =
  http_method :: string
  url :: string
  authorization :: string
  body :: "put_body option"

record response =
  status :: nat
  statusText :: string
  json :: "js_error + jsvalue"

datatype http_outcome = NetworkError js_error | Response response

record ('d, 't) platform =
  pbkdf2 :: "bytes \<Rightarrow> bytes \<Rightarrow> nat \<Rightarrow> nat \<Rightarrow> js_error + bytes"
  aes_gcm_encrypt :: "bytes \<Rightarrow> bytes \<Rightarrow> bytes \<Rightarrow> js_error + bytes"
  aes_gcm_decrypt :: "bytes \<Rightarrow> bytes \<Rightarrow> bytes \<Rightarrow> js_error + bytes"
  utf8_encode :: "'t \<Rightarrow> bytes"
  utf8_decode :: "bytes \<Rightarrow> 't"
  JSON_stringify :: "'d \<Rightarrow> js_error + 't"
  JSON_parse :: "'t \<Rightarrow> js_error + 'd"
  http_fetch :: "request \<Rightarrow> http_outcome"
  atob_message :: string
  type_error_message :: string
  range_error_message :: string

text \<open>
  \<open>crypto.getRandomValues(new Uint8Array(n))\<close>: the entropy source is a stream of bytes,
  and a call that starts at position \<open>pos\<close> takes the next \<open>n\<close> of them.
\<close>

definition getRandomValues :: "(nat \<Rightarrow> byte) \<Rightarrow> nat \<Rightarrow> nat \<Rightarrow> bytes" where
  "getRandomValues rnd pos n = map rnd [pos ..< pos + n]"

text \<open>
  \<open>target.set(source, offset)\<close> on a \<open>Uint8Array\<close> overwrites \<open>source.length\<close> bytes from
  \<open>offset\<close> on, and throws a \<open>RangeError\<close> when they do not fit.
\<close>

definition typed_array_set :: "('d, 't) platform \<Rightarrow> bytes \<Rightarrow> bytes \<Rightarrow> nat \<Rightarrow> js_error + bytes" where
  "typed_array_set env target source offset =
     (if offset + length source > length target
      then Inl (JSError ''RangeError'' (range_error_message env))
      else Inr (take offset target @ source @ drop (offset + length source) target))"

text \<open>\<open>array.slice(start, end)\<close> and \<open>array.slice(start)\<close> for non-negative indices.\<close>

definition slice :: "'a list \<Rightarrow> nat \<Rightarrow> nat \<Rightarrow> 'a list" where
  "slice xs start end = take (end - start) (drop start xs)"

definition slice_from :: "'a list \<Rightarrow> nat \<Rightarrow> 'a list" where
  "slice_from xs start = drop start xs"

text \<open>\<open>s.includes(sub)\<close>\<close>

fun str_includes :: "string \<Rightarrow> string \<Rightarrow> bool" where
  "str_includes [] sub = (sub = [])"
| "str_includes (c # cs) sub = (take (length sub) (c # cs) = sub \<or> str_includes cs sub)"

section \<open>CryptoModule\<close>

definition PBKDF2_ITERATIONS :: nat where
  "PBKDF2_ITERATIONS = 100000"

definition KEY_LENGTH :: nat where
  "KEY_LENGTH = 256"

definition deriveKey :: "('d, 't) platform \<Rightarrow> 't \<Rightarrow> bytes \<Rightarrow> js_error + bytes" where
  "deriveKey env password salt =
     (let passwordBuffer = utf8_encode env password
      in pbkdf2 env passwordBuffer salt PBKDF2_ITERATIONS KEY_LENGTH)"

text \<open>The body of the \<open>try\<close> block of \<open>encrypt\<close>; every failing step leaves it with its error.\<close>

definition encrypt_try :: "('d, 't) platform \<Rightarrow> (nat \<Rightarrow> byte) \<Rightarrow> 'd \<Rightarrow> 't \<Rightarrow> js_error + string" where
  "encrypt_try env rnd data password =
     (let salt = getRandomValues rnd 0 16;
          iv = getRandomValues rnd 16 12
      in case deriveKey env password salt of
           Inl e \<Rightarrow> Inl e
         | Inr key \<Rightarrow>
        (case JSON_stringify env data of
           Inl e \<Rightarrow> Inl e
         | Inr text \<Rightarrow>
        (case aes_gcm_encrypt env key iv (utf8_encode env text) of
           Inl e \<Rightarrow> Inl e
         | Inr encryptedBuffer \<Rightarrow>
        (let combined = replicate (length salt + length iv + length encryptedBuffer) 0
         in case typed_array_set env combined salt 0 of
              Inl e \<Rightarrow> Inl e
            | Inr combined \<Rightarrow>
           (case typed_array_set env combined iv (length salt) of
              Inl e \<Rightarrow> Inl e
            | Inr combined \<Rightarrow>
           (case typed_array_set env combined encryptedBuffer (length salt + length iv) of
              Inl e \<Rightarrow> Inl e
            | Inr combined \<Rightarrow> Inr (arrayBufferToBase64 combined)))))))"

definition encrypt :: "('d, 't) platform \<Rightarrow> (nat \<Rightarrow> byte) \<Rightarrow> 'd \<Rightarrow> 't \<Rightarrow> js_error + string" where
  "encrypt env rnd data password =
     (case encrypt_try env rnd data password of
        Inl error \<Rightarrow> Inl (Error (''Failed to encrypt data: '' @ message error))
      | Inr envelope \<Rightarrow> Inr envelope)"

text \<open>The body of the \<open>try\<close> block of \<open>decrypt\<close>.\<close>

definition decrypt_try :: "('d, 't) platform \<Rightarrow> string \<Rightarrow> 't \<Rightarrow> js_error + 'd" where
  "decrypt_try env encryptedData password =
     (case base64ToArrayBuffer encryptedData of
        None \<Rightarrow> Inl (JSError ''InvalidCharacterError'' (atob_message env))
      | Some combined \<Rightarrow>
     (let salt = slice combined 0 16;
          iv = slice combined 16 28;
          encrypted = slice_from combined 28
      in case deriveKey env password salt of
           Inl e \<Rightarrow> Inl e
         | Inr key \<Rightarrow>
        (case aes_gcm_decrypt env key iv encrypted of
           Inl e \<Rightarrow> Inl e
         | Inr decryptedBuffer \<Rightarrow> JSON_parse env (utf8_decode env decryptedBuffer))))"

definition decrypt :: "('d, 't) platform \<Rightarrow> string \<Rightarrow> 't \<Rightarrow> js_error + 'd" where
  "decrypt env encryptedData password =
     (case decrypt_try env encryptedData password of
        Inl error \<Rightarrow>
          (if name error = ''OperationError'' \<or> str_includes (message error) ''decrypt''
           then Inl (Error ''Decryption failed - incorrect password or corrupted data'')
           else Inl (Error (''Failed to decrypt data: '' @ message error)))
      | Inr data \<Rightarrow> Inr data)"


section \<open>GitHubModule\<close>

text \<open>
  The parsed JSON of a response is a \<open>jsvalue\<close> (strings and objects are all the module
  reads). Reading a property of \<open>undefined\<close> or \<open>null\<close> throws a \<open>TypeError\<close>.
\<close>

definition get_property :: "('d, 't) platform \<Rightarrow> jsvalue \<Rightarrow> string \<Rightarrow> js_error + jsvalue" where
  "get_property env v k =
     (case v of
        JObject kvs \<Rightarrow> Inr (case map_of kvs k of None \<Rightarrow> JUndefined | Some x \<Rightarrow> x)
      | JString s \<Rightarrow> Inr JUndefined
      | JNull \<Rightarrow> Inl (JSError ''TypeError'' (type_error_message env))
      | JUndefined \<Rightarrow> Inl (JSError ''TypeError'' (type_error_message env)))"

fun truthy :: "jsvalue \<Rightarrow> bool" where
  "truthy JUndefined = False"
| "truthy JNull = False"
| "truthy (JString s) = (s \<noteq> [])"
| "truthy (JObject kvs) = True"

text \<open>The conversion a template literal applies to an interpolated value.\<close>

fun to_string :: "jsvalue \<Rightarrow> string" where
  "to_string JUndefined = ''undefined''"
| "to_string JNull = ''null''"
| "to_string (JString s) = s"
| "to_string (JObject kvs) = ''[object Object]''"

definition owner :: string where "owner = ''hrunkaru''"
definition repo :: string where "repo = ''wheel-of-life''"
definition branch :: string where "branch = ''main''"
definition dataPath :: string where "dataPath = ''data/wheel-of-life.json.encrypted''"

definition contents_url :: string where
  "contents_url = ''https://api.github.com/repos/'' @ owner @ ''/'' @ repo @ ''/contents/'' @ dataPath"

definition ok :: "response \<Rightarrow> bool" where
  "ok r = (200 \<le> status r \<and> status r \<le> 299)"

text \<open>
  What both functions throw on a response that is not \<open>ok\<close>:
  \<open>const error = await response.json();
   throw new Error(`GitHub API error: ${error.message || response.statusText}`)\<close>.
\<close>

definition api_error :: "('d, 't) platform \<Rightarrow> response \<Rightarrow> js_error" where
  "api_error env r =
     (case json r of
        Inl e \<Rightarrow> e
      | Inr error \<Rightarrow>
          (case get_property env error ''message'' of
             Inl e \<Rightarrow> e
           | Inr m \<Rightarrow>
               Error (''GitHub API error: ''
                      @ to_string (if truthy m then m else JString (statusText r)))))"

record fetched =
  content :: "string option"
  sha :: jsvalue

definition get_request :: "string \<Rightarrow> request" where
  "get_request token =
     \<lparr>http_method = ''GET'', url = contents_url, authorization = ''Bearer '' @ token, body = None\<rparr>"

definition put_request :: "string \<Rightarrow> put_body \<Rightarrow> request" where
  "put_request token request_body =
     \<lparr>http_method = ''PUT'', url = contents_url, authorization = ''Bearer '' @ token,
      body = Some request_body\<rparr>"

definition fetchEncryptedData :: "('d, 't) platform \<Rightarrow> string \<Rightarrow> js_error + fetched" where
  "fetchEncryptedData env token =
     (case http_fetch env (get_request token) of
        NetworkError error \<Rightarrow> Inl error
      | Response r \<Rightarrow>
          if status r = 404 then Inr \<lparr>content = None, sha = JNull\<rparr>
          else if \<not> ok r then Inl (api_error env r)
          else
            (case json r of
               Inl error \<Rightarrow> Inl error
             | Inr data \<Rightarrow>
            (case get_property env data ''content'' of
               Inl error \<Rightarrow> Inl error
             | Inr (JString c) \<Rightarrow>
                 (case atob (filter (\<lambda>x. x \<noteq> CHR 0x0A) c) of
                    None \<Rightarrow> Inl (JSError ''InvalidCharacterError'' (atob_message env))
                  | Some decoded \<Rightarrow>
                      (case get_property env data ''sha'' of
                         Inl error \<Rightarrow> Inl error
                       | Inr s \<Rightarrow> Inr \<lparr>content = Some decoded, sha = s\<rparr>))
             | Inr _ \<Rightarrow> Inl (JSError ''TypeError'' (type_error_message env)))))"

definition commitEncryptedData ::
  "('d, 't) platform \<Rightarrow> string \<Rightarrow> string \<Rightarrow> jsvalue \<Rightarrow> string \<Rightarrow> js_error + jsvalue" where
  "commitEncryptedData env token encryptedData sha_arg msg =
     (let contentBase64 = btoa encryptedData;
          request_body = \<lparr>commit_message = msg, body_content = contentBase64,
                          branch_name = branch,
                          body_sha = (if truthy sha_arg then Some sha_arg else None)\<rparr>
      in case http_fetch env (put_request token request_body) of
           NetworkError error \<Rightarrow> Inl error
         | Response r \<Rightarrow> if \<not> ok r then Inl (api_error env r) else json r)"

section \<open>WheelChart: the derived views\<close>

text \<open>
  The nine rating keys, in the order of \<open>labels\<close> (which is also the order in which the
  keys of a ratings object are created). JavaScript numbers are real numbers here; a
  \<open>Date\<close> is its time value in milliseconds, or invalid. The values of the ratings of an
  entry have the type \<open>'n\<close>: the views read numbers, the handler that creates entries
  stores whatever \<open>parseInt\<close> returned, \<open>NaN\<close> included.
\<close>

datatype rating_key = Body | Mind | Soul | Friends | Romance | Family | Mission | Money | Growth

definition labels :: "rating_key list" where
  "labels = [Body, Mind, Soul, Friends, Romance, Family, Mission, Money, Growth]"

type_synonym rating_set = "rating_key \<Rightarrow> real"

datatype date = Date int | InvalidDate

record 'n entry =
  entry_id :: string
  timestamp :: date
  ratings :: "rating_key \<Rightarrow> 'n"
  entry_notes :: string

record 'n document =
  entries :: "'n entry list"
  version :: string

definition Object_values :: "rating_set \<Rightarrow> real list" where
  "Object_values r = map r labels"

definition Math_round :: "real \<Rightarrow> real" where
  "Math_round x = of_int \<lfloor>x + 1 / 2\<rfloor>"

definition getBalanceScore :: "rating_set \<Rightarrow> real" where
  "getBalanceScore r =
     (let allValues = Object_values r;
          avg = foldl (\<lambda>a b. a + b) 0 allValues / real (length allValues);
          variance = foldl (\<lambda>sum val. sum + (val - avg) ^ 2) 0 allValues
                     / real (length allValues);
          stdDev = sqrt variance;
          balanceScore = max 0 (10 - stdDev)
      in Math_round (balanceScore * 10) / 10)"

text \<open>\<open>a >= b\<close> and \<open>a <= b\<close> on dates compare the time values; with an invalid date both are false.\<close>

fun date_ge :: "date \<Rightarrow> date \<Rightarrow> bool" where
  "date_ge (Date a) (Date b) = (a \<ge> b)"
| "date_ge _ _ = False"

fun date_le :: "date \<Rightarrow> date \<Rightarrow> bool" where
  "date_le (Date a) (Date b) = (a \<le> b)"
| "date_le _ _ = False"

text \<open>
  The host's clock: the time value of \<open>new Date()\<close> and the offset of local time in
  milliseconds, \<open>LocalTZA t True\<close> at the UTC time \<open>t\<close> and \<open>LocalTZA t False\<close> at the local
  time \<open>t\<close>. The functions below are those of the language standard.
\<close>

record clock =
  current_time :: int
  LocalTZA :: "int \<Rightarrow> bool \<Rightarrow> int"

definition msPerDay :: int where
  "msPerDay = 86400000"

definition LocalTime :: "clock \<Rightarrow> int \<Rightarrow> int" where
  "LocalTime clk t = t + LocalTZA clk t True"

definition UTC :: "clock \<Rightarrow> int \<Rightarrow> int" where
  "UTC clk t = t - LocalTZA clk t False"

definition Day :: "int \<Rightarrow> int" where
  "Day t = t div msPerDay"

definition TimeWithinDay :: "int \<Rightarrow> int" where
  "TimeWithinDay t = t mod msPerDay"

definition MakeDate :: "int \<Rightarrow> int \<Rightarrow> int" where
  "MakeDate day time = day * msPerDay + time"

definition TimeClip :: "int \<Rightarrow> date" where
  "TimeClip t = (if \<bar>t\<bar> > 8640000000000000 then InvalidDate else Date t)"

text \<open>
  \<open>const cutoffDate = new Date(); cutoffDate.setDate(cutoffDate.getDate() - days)\<close>.
  \<open>setDate(dt)\<close> takes the local time \<open>t\<close> of the date, builds
  \<open>MakeDate(MakeDay(YearFromTime(t), MonthFromTime(t), dt), TimeWithinDay(t))\<close> and converts
  it back; with \<open>dt = getDate() - days\<close>, the day of the month of \<open>t\<close> minus \<open>days\<close>,
  \<open>MakeDay\<close> yields the day number \<open>Day(t) - days\<close>.
\<close>

definition cutoffDate :: "clock \<Rightarrow> int \<Rightarrow> date" where
  "cutoffDate clk days =
     (let t = LocalTime clk (current_time clk);
          newDate = MakeDate (Day t - days) (TimeWithinDay t)
      in TimeClip (UTC clk newDate))"

definition key_average :: "real entry list \<Rightarrow> rating_key \<Rightarrow> real" where
  "key_average filteredEntries key =
     (let sum = foldl (\<lambda>total e. total + ratings e key) 0 filteredEntries
      in Math_round ((sum / real (length filteredEntries)) * 10) / 10)"

definition calculateAverages ::
  "clock \<Rightarrow> real entry list \<Rightarrow> int option \<Rightarrow> (rating_key \<rightharpoonup> real) option" where
  "calculateAverages clk es days =
     (if length es = 0 then None
      else
        (let filteredEntries =
               (case days of
                  None \<Rightarrow> es
                | Some d \<Rightarrow> filter (\<lambda>e. date_ge (timestamp e) (cutoffDate clk d)) es)
         in if length filteredEntries = 0 then None
            else Some (fold (\<lambda>key averages. averages(key \<mapsto> key_average filteredEntries key))
                            labels Map.empty)))"

definition filterByDateRange ::
  "'n entry list \<Rightarrow> date option \<Rightarrow> date option \<Rightarrow> 'n entry list" where
  "filterByDateRange es startDate endDate =
     (if startDate = None \<and> endDate = None then es
      else filter (\<lambda>e.
             (let entryDate = timestamp e;
                  afterStart = (case startDate of None \<Rightarrow> True | Some s \<Rightarrow> date_ge entryDate s);
                  beforeEnd = (case endDate of None \<Rightarrow> True | Some d \<Rightarrow> date_le entryDate d)
              in afterStart \<and> beforeEnd)) es)"


section \<open>App: submitting an entry and saving\<close>

text \<open>
  The part of \<open>App.state\<close> that the handlers use. \<open>data\<close> is the loaded document: the
  entry form is shown only after a document has been loaded or created.
\<close>

record ('n, 't) app_state =
  authenticated :: bool
  pat :: string
  password :: 't
  data :: "'n document"
  currentSHA :: jsvalue
  currentView :: string

definition createEmptyData :: "'n document" where
  "createEmptyData = \<lparr>entries = [], version = ''1.0''\<rparr>"

text \<open>
  What the handler reads from the page: for every slider the value that
  \<open>parseInt(document.getElementById('rating-...').value)\<close> returns, and the text of the
  notes field. The handler only stores these values, so their type \<open>'n\<close> is left open.
\<close>

record 'n form =
  slider_value :: "rating_key \<Rightarrow> 'n"
  notes_value :: string

text \<open>What \<open>parseInt\<close> can return: a number, or \<open>NaN\<close>.\<close>

datatype js_number = Number real | NaN

definition js_whitespace :: "char \<Rightarrow> bool" where
  "js_whitespace c = (of_char c \<in> {9, 10, 11, 12, 13, 32, 160 :: nat})"

definition trim :: "string \<Rightarrow> string" where
  "trim s = rev (dropWhile js_whitespace (rev (dropWhile js_whitespace s)))"

text \<open>
  \<open>saveData\<close> returns the error it rethrows, if any, and the state it leaves. Messages
  shown on the page are not part of the state.
\<close>

definition saveData ::
  "('n document, 't) platform \<Rightarrow> (nat \<Rightarrow> byte) \<Rightarrow> ('n, 't) app_state \<Rightarrow> string
   \<Rightarrow> js_error option \<times> ('n, 't) app_state" where
  "saveData env rnd st commitMessage =
     (case encrypt env rnd (data st) (password st) of
        Inl error \<Rightarrow> (Some error, st)
      | Inr encrypted \<Rightarrow>
     (case commitEncryptedData env (pat st) encrypted (currentSHA st) commitMessage of
        Inl error \<Rightarrow> (Some error, st)
      | Inr response \<Rightarrow>
     (case get_property env response ''content'' of
        Inl error \<Rightarrow> (Some error, st)
      | Inr c \<Rightarrow>
     (case get_property env c ''sha'' of
        Inl error \<Rightarrow> (Some error, st)
      | Inr s \<Rightarrow> (None, st\<lparr>currentSHA := s\<rparr>)))))"

text \<open>
  \<open>handleEntrySubmit\<close>, given the identifier \<open>generateUUID()\<close> returns and the current
  time. The entry is pushed, then the document is saved; an error of \<open>saveData\<close> rejects
  the handler.
\<close>

definition handleEntrySubmit ::
  "('n document, 't) platform \<Rightarrow> (nat \<Rightarrow> byte) \<Rightarrow> string \<Rightarrow> int \<Rightarrow> 'n form
   \<Rightarrow> ('n, 't) app_state \<Rightarrow> js_error option \<times> ('n, 't) app_state" where
  "handleEntrySubmit env rnd uuid now f st =
     (let rs = (\<lambda>key. case key of
                   Body \<Rightarrow> slider_value f Body | Mind \<Rightarrow> slider_value f Mind
                 | Soul \<Rightarrow> slider_value f Soul | Friends \<Rightarrow> slider_value f Friends
                 | Romance \<Rightarrow> slider_value f Romance | Family \<Rightarrow> slider_value f Family
                 | Mission \<Rightarrow> slider_value f Mission | Money \<Rightarrow> slider_value f Money
                 | Growth \<Rightarrow> slider_value f Growth);
          new_entry = \<lparr>entry_id = uuid, timestamp = Date now, ratings = rs,
                       entry_notes = trim (notes_value f)\<rparr>;
          st1 = st\<lparr>data := (data st)\<lparr>entries := entries (data st) @ [new_entry]\<rparr>\<rparr>
      in saveData env rnd st1 ''Add new wheel-of-life entry'')"

section \<open>The specification's notions\<close>


definition mean :: "real list \<Rightarrow> real" where
  "mean xs = sum_list xs / real (length xs)"

definition population_stddev :: "real list \<Rightarrow> real" where
  "population_stddev xs = sqrt (sum_list (map (\<lambda>x. (x - mean xs) ^ 2) xs) / real (length xs))"

definition round_to_one_decimal :: "real \<Rightarrow> real" where
  "round_to_one_decimal x = of_int (round (x * 10)) / 10"

definition key_values :: "real entry list \<Rightarrow> rating_key \<Rightarrow> real list" where
  "key_values es key = map (\<lambda>e. ratings e key) es"

text \<open>
  The start of a window of \<open>d\<close> days: the instant at which the local clock shows what it
  shows now, \<open>d\<close> times 24 hours less; no instant when that lies outside the range of
  dates. The entries of the window are all entries, or those at or after its start.
\<close>

definition wall_clock :: "clock \<Rightarrow> int \<Rightarrow> int" where
  "wall_clock clk t = t + LocalTZA clk t True"

definition instant_showing :: "clock \<Rightarrow> int \<Rightarrow> int" where
  "instant_showing clk w = w - LocalTZA clk w False"

definition window_start :: "clock \<Rightarrow> int \<Rightarrow> date" where
  "window_start clk d =
     (let u = instant_showing clk (wall_clock clk (current_time clk) - d * 86400000)
      in if - 8640000000000000 \<le> u \<and> u \<le> 8640000000000000 then Date u else InvalidDate)"

definition in_window :: "clock \<Rightarrow> int option \<Rightarrow> 'n entry list \<Rightarrow> 'n entry list" where
  "in_window clk days es =
     (case days of
        None \<Rightarrow> es
      | Some d \<Rightarrow> filter (\<lambda>e. date_le (window_start clk d) (timestamp e)) es)"

text \<open>Inclusive bounds, an absent bound being no bound.\<close>

definition within_range :: "date option \<Rightarrow> date option \<Rightarrow> 'n entry \<Rightarrow> bool" where
  "within_range start end e =
     ((case start of None \<Rightarrow> True | Some s \<Rightarrow> date_le s (timestamp e))
      \<and> (case end of None \<Rightarrow> True | Some d \<Rightarrow> date_le (timestamp e) d))"

text \<open>\<open>averages[key]\<close> of a result of \<open>calculateAverages\<close>.\<close>

definition average_of :: "(rating_key \<rightharpoonup> real) option \<Rightarrow> rating_key \<Rightarrow> real option" where
  "average_of result key = (case result of None \<Rightarrow> None | Some averages \<Rightarrow> averages key)"


text \<open>The entry that the handler builds, and the state after it has been pushed.\<close>

definition new_entry :: "string \<Rightarrow> int \<Rightarrow> 'n form \<Rightarrow> 'n entry" where
  "new_entry uuid now f =
     \<lparr>entry_id = uuid, timestamp = Date now, ratings = slider_value f,
      entry_notes = trim (notes_value f)\<rparr>"

definition pushed :: "('n, 't) app_state \<Rightarrow> 'n entry \<Rightarrow> ('n, 't) app_state" where
  "pushed st e = st\<lparr>data := (data st)\<lparr>entries := entries (data st) @ [e]\<rparr>\<rparr>"

text \<open>
  The two errors that \<open>decrypt\<close> throws, and the one it throws for an underlying error:
  the first when that error is named \<open>OperationError\<close> or has "decrypt" in its message,
  the second, with the underlying message, otherwise.
\<close>

definition decryption_failed :: js_error where
  "decryption_failed = Error ''Decryption failed - incorrect password or corrupted data''"

definition failed_to_decrypt :: "string \<Rightarrow> js_error" where
  "failed_to_decrypt cause = Error (''Failed to decrypt data: '' @ cause)"

definition reported :: "js_error \<Rightarrow> js_error" where
  "reported u =
     (if name u = ''OperationError'' \<or> str_includes (message u) ''decrypt''
      then decryption_failed
      else failed_to_decrypt (message u))"

section \<open>A test double of the browser\<close>

text \<open>
  A small stand-in for the browser, used to run the modules on concrete inputs: the key is
  the password bytes followed by the salt, the cipher appends a 16-byte tag computed from
  key and nonce and rejects a ciphertext whose tag differs with an \<open>OperationError\<close>, text
  is encoded one byte per character, and JSON covers the empty document only. The network
  is a parameter.
\<close>

definition test_tag :: "bytes \<Rightarrow> bytes \<Rightarrow> bytes" where
  "test_tag key iv = take 16 (key @ iv @ replicate 16 0)"

definition test_decrypt :: "bytes \<Rightarrow> bytes \<Rightarrow> bytes \<Rightarrow> js_error + bytes" where
  "test_decrypt key iv ct =
     (if 16 \<le> length ct \<and> drop (length ct - 16) ct = test_tag key iv
      then Inr (take (length ct - 16) ct)
      else Inl (JSError ''OperationError'' ''The operation failed for an operation-specific reason''))"

definition test_json :: string where
  \<open>test_json = ''{"entries":[],"version":"1.0"}''\<close>

definition test_stringify :: "'n document \<Rightarrow> js_error + string" where
  "test_stringify d = Inr (if d = createEmptyData then test_json else ''{}'')"

definition test_parse :: "string \<Rightarrow> js_error + 'n document" where
  "test_parse t =
     (if t = test_json then Inr createEmptyData
      else Inl (JSError ''SyntaxError'' ''JSON.parse: unexpected character''))"

definition any_platform ::
  "(request \<Rightarrow> http_outcome) \<Rightarrow> ('n document, string) platform" where
  "any_platform net =
     \<lparr>pbkdf2 = (\<lambda>pw salt iterations len. Inr (pw @ salt)),
      aes_gcm_encrypt = (\<lambda>key iv pt. Inr (pt @ test_tag key iv)),
      aes_gcm_decrypt = test_decrypt,
      utf8_encode = map (\<lambda>c. of_nat (of_char c)),
      utf8_decode = map fromCharCode,
      JSON_stringify = test_stringify,
      JSON_parse = test_parse,
      http_fetch = net,
      atob_message = ''String contains an invalid character'',
      type_error_message = ''value is undefined'',
      range_error_message = ''offset is out of bounds''\<rparr>"

text \<open>The same with numbers as rating values.\<close>

definition test_platform ::
  "(request \<Rightarrow> http_outcome) \<Rightarrow> (real document, string) platform" where
  "test_platform net = any_platform net"

definition net_not_found :: "request \<Rightarrow> http_outcome" where
  "net_not_found req =
     Response \<lparr>status = 404, statusText = ''Not Found'',
               json = Inr (JObject [(''message'', JString ''Not Found'')])\<rparr>"

definition net_conflict :: "request \<Rightarrow> http_outcome" where
  "net_conflict req =
     Response \<lparr>status = 409, statusText = ''Conflict'',
               json = Inr (JObject [(''message'', JString ''is at a different sha'')])\<rparr>"


definition net_down :: "request \<Rightarrow> http_outcome" where
  "net_down req = NetworkError (JSError ''TypeError'' ''Failed to fetch'')"

definition test_entropy :: "nat \<Rightarrow> byte" where
  "test_entropy i = of_nat (7 * i + 1)"

definition test_state :: "(real, string) app_state" where
  "test_state =
     \<lparr>authenticated = True, pat = ''github_pat_x'', password = ''correct horse'',
      data = createEmptyData, currentSHA = JNull, currentView = ''dashboard''\<rparr>"

definition rated :: "int \<Rightarrow> real \<Rightarrow> real entry" where
  "rated t v = \<lparr>entry_id = ''e'', timestamp = Date t, ratings = (\<lambda>key. v), entry_notes = []\<rparr>"

definition test_form :: "real \<Rightarrow> real form" where
  "test_form v = \<lparr>slider_value = (\<lambda>key. v), notes_value = '' fine ''\<rparr>"



text \<open>
  Two clocks: one on UTC, and one that reads 13:00 UTC on 5 November 2026 in a zone four
  hours behind UTC until 1 November 2026, 06:00 UTC, and five hours behind from then on.
\<close>

definition utc_clock :: "int \<Rightarrow> clock" where
  "utc_clock t = \<lparr>current_time = t, LocalTZA = (\<lambda>t isUTC. 0)\<rparr>"

definition autumn_clock :: clock where
  "autumn_clock =
     \<lparr>current_time = 1793883600000,
      LocalTZA = (\<lambda>t isUTC.
         if isUTC then (if t < 1793512800000 then - 14400000 else - 18000000)
         else (if t < 1793494800000 then - 14400000 else - 18000000))\<rparr>"

section \<open>Auxiliary functions of the proofs\<close>

text \<open>The 6-bit indices and the number of padding characters that \<open>b64_encode\<close> emits.\<close>

fun b64_sextets :: "bytes \<Rightarrow> nat list" where
  "b64_sextets [] = []"
| "b64_sextets [a] = [unat a div 4, unat a mod 4 * 16]"
| "b64_sextets [a, b] = [unat a div 4, unat a mod 4 * 16 + unat b div 16, unat b mod 16 * 4]"
| "b64_sextets (a # b # c # r) =
     [unat a div 4, unat a mod 4 * 16 + unat b div 16,
      unat b mod 16 * 4 + unat c div 64, unat c mod 64] @ b64_sextets r"

fun b64_padding :: "bytes \<Rightarrow> nat" where
  "b64_padding [] = 0"
| "b64_padding [a] = 2"
| "b64_padding [a, b] = 1"
| "b64_padding (a # b # c # r) = b64_padding r"


section \<open>The transport codec loses nothing\<close>

lemma index_of_nth: "distinct xs \<Longrightarrow> i < length xs \<Longrightarrow> index_of (xs ! i) xs = Some i"
proof (induction xs arbitrary: i)
  case Nil
  then show ?case by simp
next
  case (Cons y ys)
  show ?case
  proof (cases i)
    case 0
    then show ?thesis by simp
  next
    case (Suc j)
    with Cons.prems have "j < length ys" "distinct ys" "ys ! j \<noteq> y"
      by auto
    with Cons.IH [of j] Suc show ?thesis by simp
  qed
qed

lemma length_b64_alphabet: "length b64_alphabet = 64"
  by (simp add: b64_alphabet_def)

lemma distinct_b64_alphabet: "distinct b64_alphabet"
  by (simp add: b64_alphabet_def)

lemma b64_index_char: "i < 64 \<Longrightarrow> b64_index (b64_char i) = Some i"
  by (simp add: b64_index_def b64_char_def index_of_nth distinct_b64_alphabet length_b64_alphabet)

lemma b64_alphabet_plain: "c \<in> set b64_alphabet \<Longrightarrow> c \<noteq> CHR ''='' \<and> \<not> ascii_whitespace c"
  by (auto simp add: b64_alphabet_def ascii_whitespace_def)

lemma b64_char_plain: "i < 64 \<Longrightarrow> b64_char i \<noteq> CHR ''='' \<and> \<not> ascii_whitespace (b64_char i)"
  by (rule b64_alphabet_plain) (simp add: b64_char_def length_b64_alphabet)

lemma toBinary_loop_eq: "toBinary_loop bs binary = binary @ map fromCharCode bs"
  by (induction bs arbitrary: binary) simp_all

lemma toBytes_loop_eq:
  "i \<le> length binary \<Longrightarrow> length bs = length binary \<Longrightarrow>
   take i bs = map (\<lambda>c. of_nat (of_char c)) (take i binary) \<Longrightarrow>
   toBytes_loop binary i bs = map (\<lambda>c. of_nat (of_char c)) binary"
proof (induction binary i bs rule: toBytes_loop.induct)
  case (1 binary i bs)
  show ?case
  proof (cases "i < length binary")
    case True
    have "take (i + 1) (bs[i := of_nat (of_char (binary ! i))])
          = map (\<lambda>c. of_nat (of_char c)) (take (i + 1) binary)"
      using True "1.prems" by (simp add: take_Suc_conv_app_nth)
    with "1.IH" [OF True] True "1.prems" show ?thesis
      by (simp del: toBytes_loop.simps add: toBytes_loop.simps [of binary i bs])
  next
    case False
    with "1.prems" show ?thesis by simp
  qed
qed

lemma byte_char_byte: "of_nat (of_char (fromCharCode b)) = (b :: byte)"
proof -
  have "unat b < 256" using unsigned_less [of b, where ?'a = nat] by simp
  then show ?thesis by (simp add: fromCharCode_def)
qed

lemma unat_byte_lt: "unat (a :: byte) < 256"
  using unsigned_less [of a, where ?'a = nat] by simp

lemma b64_encode_decomp:
  "b64_encode bs = map b64_char (b64_sextets bs) @ replicate (b64_padding bs) CHR ''=''"
  by (induction bs rule: b64_encode.induct) (simp_all add: numeral_2_eq_2)

lemma b64_sextets_lt: "i \<in> set (b64_sextets bs) \<Longrightarrow> i < 64"
proof (induction bs rule: b64_sextets.induct)
  case 1
  then show ?case by simp
next
  case (2 a)
  with unat_byte_lt [of a] show ?case by auto
next
  case (3 a b)
  with unat_byte_lt [of a] unat_byte_lt [of b] show ?case by auto
next
  case (4 a b c r)
  with unat_byte_lt [of a] unat_byte_lt [of b] unat_byte_lt [of c] show ?case by auto
qed

lemma b64_sextets_shape:
  "(b64_padding bs = 0 \<and> length (b64_sextets bs) mod 4 = 0)
   \<or> (b64_padding bs = 1 \<and> length (b64_sextets bs) mod 4 = 3)
   \<or> (b64_padding bs = 2 \<and> length (b64_sextets bs) mod 4 = 2)"
  by (induction bs rule: b64_sextets.induct) simp_all

lemma b64_decode_sextets: "b64_decode (b64_sextets bs) = bs"
proof (induction bs rule: b64_sextets.induct)
  case 1
  then show ?case by simp
next
  case (2 a)
  have "unat a div 4 * 4 + unat a mod 4 * 16 div 16 = unat a" by simp
  then show ?case by simp
next
  case (3 a b)
  have "unat a div 4 * 4 + (unat a mod 4 * 16 + unat b div 16) div 16 = unat a"
    using unat_byte_lt [of b] by simp
  moreover have "(unat a mod 4 * 16 + unat b div 16) mod 16 * 16 + unat b mod 16 * 4 div 4 = unat b"
    using unat_byte_lt [of b] by simp
  ultimately show ?case by simp
next
  case (4 a b c r)
  have "unat a div 4 * 4 + (unat a mod 4 * 16 + unat b div 16) div 16 = unat a"
    using unat_byte_lt [of b] by simp
  moreover have "(unat a mod 4 * 16 + unat b div 16) mod 16 * 16
                 + (unat b mod 16 * 4 + unat c div 64) div 4 = unat b"
    using unat_byte_lt [of b] unat_byte_lt [of c] by simp
  moreover have "(unat b mod 16 * 4 + unat c div 64) mod 4 * 64 + unat c mod 64 = unat c"
    using unat_byte_lt [of c] by simp
  ultimately show ?case using 4 by simp
qed

lemma sextets_of_chars: "\<forall>i\<in>set xs. i < 64 \<Longrightarrow> sextets_of (map b64_char xs) = Some xs"
  by (induction xs) (simp_all add: b64_index_char)


lemma filter_b64_encode: "filter (\<lambda>c. \<not> ascii_whitespace c) (b64_encode bs) = b64_encode bs"
proof -
  have "\<not> ascii_whitespace CHR ''=''" by (simp add: ascii_whitespace_def)
  then have "\<forall>c\<in>set (b64_encode bs). \<not> ascii_whitespace c"
    by (auto simp add: b64_encode_decomp dest: b64_sextets_lt b64_char_plain)
  then show ?thesis by simp
qed

lemma strip_padding_b64_encode:
  "strip_padding (b64_encode bs) = map b64_char (b64_sextets bs)"
proof -
  let ?m = "map b64_char (b64_sextets bs)"
  have last_m: "?m \<noteq> [] \<Longrightarrow> last ?m \<noteq> CHR ''=''"
  proof -
    assume ne: "?m \<noteq> []"
    then have "last ?m \<in> set ?m" by (rule last_in_set)
    then obtain i where "i \<in> set (b64_sextets bs)" "last ?m = b64_char i" by auto
    then show ?thesis using b64_char_plain [of i] b64_sextets_lt [of i bs] by simp
  qed
  consider (p0) "b64_padding bs = 0" | (p1) "b64_padding bs = 1" "?m \<noteq> []"
    | (p2) "b64_padding bs = 2" "?m \<noteq> []"
    using b64_sextets_shape [of bs] by fastforce
  then show ?thesis
  proof cases
    case p0
    with last_m show ?thesis by (auto simp add: b64_encode_decomp strip_padding_def)
  next
    case p1
    with last_m show ?thesis by (simp add: b64_encode_decomp strip_padding_def)
  next
    case p2
    with last_m show ?thesis
      by (simp add: b64_encode_decomp strip_padding_def numeral_2_eq_2 butlast_append)
  qed
qed

lemma length_b64_encode: "length (b64_encode bs) mod 4 = 0"
  by (induction bs rule: b64_encode.induct) simp_all

lemma atob_b64_encode: "atob (b64_encode bs) = Some (map fromCharCode bs)"
proof -
  have "length (b64_sextets bs) mod 4 \<noteq> 1"
    using b64_sextets_shape [of bs] by auto
  moreover have "sextets_of (map b64_char (b64_sextets bs)) = Some (b64_sextets bs)"
    by (rule sextets_of_chars) (simp add: b64_sextets_lt)
  ultimately show ?thesis
    by (simp add: atob_def filter_b64_encode length_b64_encode strip_padding_b64_encode
        b64_decode_sextets)
qed

lemma btoa_binary: "btoa (map fromCharCode bs) = b64_encode bs"
  by (simp add: btoa_def comp_def byte_char_byte)

lemma decode_encode: "base64ToArrayBuffer (arrayBufferToBase64 b) = Some b"
proof -
  have enc: "arrayBufferToBase64 b = b64_encode b"
    by (simp add: arrayBufferToBase64_def toBinary_loop_eq btoa_binary)
  have "toBytes_loop (map fromCharCode b) 0 (replicate (length b) 0)
        = map (\<lambda>c. of_nat (of_char c)) (map fromCharCode b)"
    by (rule toBytes_loop_eq) simp_all
  then have "toBytes_loop (map fromCharCode b) 0 (replicate (length b) 0) = b"
    by (simp add: comp_def byte_char_byte)
  then show ?thesis
    by (simp add: base64ToArrayBuffer_def enc atob_b64_encode)
qed

text \<open>
  C10: for every byte array \<open>b\<close>, decoding the base64 text that \<open>arrayBufferToBase64\<close>
  produces for \<open>b\<close> succeeds and returns exactly \<open>b\<close>; the transport codec loses no byte.
\<close>

theorem base64_round_trip: "base64ToArrayBuffer (arrayBufferToBase64 b) = Some b"
  by (rule decode_encode)

theorem base64_round_trip_witness:
  "base64ToArrayBuffer (arrayBufferToBase64 [0, 255, 16, 77]) = Some [0, 255, 16, 77]
   \<and> arrayBufferToBase64 [0, 255, 16, 77] = ''AP8QTQ==''"
  using base64_round_trip [of "[0, 255, 16, 77]"]
  by (simp add: arrayBufferToBase64_def btoa_def fromCharCode_def b64_char_def b64_alphabet_def)


section \<open>The sealed envelope\<close>

lemma length_getRandomValues: "length (getRandomValues rnd pos n) = n"
  by (simp add: getRandomValues_def)

lemma combined_layout:
  fixes s i c :: bytes
  shows "typed_array_set env (replicate (length s + length i + length c) 0) s 0
           = Inr (s @ replicate (length i + length c) 0)"
    and "typed_array_set env (s @ replicate (length i + length c) 0) i (length s)
           = Inr (s @ i @ replicate (length c) 0)"
    and "typed_array_set env (s @ i @ replicate (length c) 0) c (length s + length i)
           = Inr (s @ i @ c)"
  by (simp_all add: typed_array_set_def replicate_add [symmetric])

lemma encrypt_try_eq:
  "encrypt_try env rnd d p =
     (case deriveKey env p (getRandomValues rnd 0 16) of
        Inl e \<Rightarrow> Inl e
      | Inr key \<Rightarrow>
     (case JSON_stringify env d of
        Inl e \<Rightarrow> Inl e
      | Inr text \<Rightarrow>
     (case aes_gcm_encrypt env key (getRandomValues rnd 16 12) (utf8_encode env text) of
        Inl e \<Rightarrow> Inl e
      | Inr ct \<Rightarrow>
          Inr (arrayBufferToBase64 (getRandomValues rnd 0 16 @ getRandomValues rnd 16 12 @ ct)))))"
  by (simp add: encrypt_try_def Let_def combined_layout split: sum.splits)

lemma encrypt_Inr:
  assumes "encrypt env rnd d p = Inr envelope"
  obtains key str ct where
    "deriveKey env p (getRandomValues rnd 0 16) = Inr key"
    "JSON_stringify env d = Inr str"
    "aes_gcm_encrypt env key (getRandomValues rnd 16 12) (utf8_encode env str) = Inr ct"
    "envelope = arrayBufferToBase64 (getRandomValues rnd 0 16 @ getRandomValues rnd 16 12 @ ct)"
  using assms by (auto simp add: encrypt_def encrypt_try_eq split: sum.splits)

lemma envelope_slices:
  fixes s i c :: bytes
  assumes "length s = 16" "length i = 12"
  shows "slice (s @ i @ c) 0 16 = s" "slice (s @ i @ c) 16 28 = i" "slice_from (s @ i @ c) 28 = c"
  using assms by (simp_all add: slice_def slice_from_def)

lemma decrypt_try_envelope:
  fixes s i c :: bytes
  assumes "length s = 16" "length i = 12"
  shows "decrypt_try env (arrayBufferToBase64 (s @ i @ c)) p =
     (case deriveKey env p s of
        Inl e \<Rightarrow> Inl e
      | Inr key \<Rightarrow>
     (case aes_gcm_decrypt env key i c of
        Inl e \<Rightarrow> Inl e
      | Inr decryptedBuffer \<Rightarrow> JSON_parse env (utf8_decode env decryptedBuffer)))"
  using assms by (simp add: decrypt_try_def decode_encode envelope_slices Let_def)

text \<open>
  C1: on a platform whose cipher decrypts what it encrypted (same key and nonce) and
  whose JSON and text codecs give the document \<open>d\<close> back, decrypting the envelope that
  \<open>encrypt\<close> produced for \<open>d\<close> and a password, with the same password, succeeds and
  returns exactly \<open>d\<close>.
\<close>

theorem encrypt_decrypt_round_trip:
  assumes aead: "\<forall>key iv pt ct. aes_gcm_encrypt env key iv pt = Inr ct
                   \<longrightarrow> aes_gcm_decrypt env key iv ct = Inr pt"
    and serial: "\<forall>text. JSON_stringify env d = Inr text
                   \<longrightarrow> JSON_parse env (utf8_decode env (utf8_encode env text)) = Inr d"
    and enc: "encrypt env rnd d p = Inr envelope"
  shows "decrypt env envelope p = Inr d"
proof -
  let ?salt = "getRandomValues rnd 0 16" and ?iv = "getRandomValues rnd 16 12"
  from enc obtain key str ct where
    key: "deriveKey env p ?salt = Inr key" and
    str: "JSON_stringify env d = Inr str" and
    ct: "aes_gcm_encrypt env key ?iv (utf8_encode env str) = Inr ct" and
    envelope: "envelope = arrayBufferToBase64 (?salt @ ?iv @ ct)"
    by (rule encrypt_Inr)
  from aead ct have "aes_gcm_decrypt env key ?iv ct = Inr (utf8_encode env str)"
    by blast
  moreover from serial str
  have "JSON_parse env (utf8_decode env (utf8_encode env str)) = Inr d"
    by blast
  ultimately have "decrypt_try env envelope p = Inr d"
    using key by (simp add: envelope decrypt_try_envelope length_getRandomValues)
  then show ?thesis by (simp add: decrypt_def)
qed


lemma char_byte_char: "fromCharCode (of_nat (of_char c)) = c"
  by (simp add: fromCharCode_def unat_of_nat)

lemma test_aead:
  "\<forall>key iv pt ct. aes_gcm_encrypt (test_platform net) key iv pt = Inr ct
     \<longrightarrow> aes_gcm_decrypt (test_platform net) key iv ct = Inr pt"
proof -
  have "length (test_tag key iv) = 16" for key iv
    by (simp add: test_tag_def min_def)
  then show ?thesis
    by (simp add: test_platform_def any_platform_def test_decrypt_def)
qed

lemma test_serial:
  "\<forall>str. JSON_stringify (test_platform net) createEmptyData = Inr str
     \<longrightarrow> JSON_parse (test_platform net) (utf8_decode (test_platform net)
           (utf8_encode (test_platform net) str)) = Inr createEmptyData"
  by (simp add: test_platform_def any_platform_def test_stringify_def test_parse_def comp_def char_byte_char)

lemma test_encrypt:
  "\<exists>envelope. encrypt (test_platform net) rnd createEmptyData p = Inr envelope"
  by (simp add: encrypt_def encrypt_try_eq deriveKey_def test_platform_def any_platform_def test_stringify_def)

theorem encrypt_decrypt_round_trip_witness:
  "case encrypt (test_platform net_down) test_entropy createEmptyData ''correct horse'' of
     Inl e \<Rightarrow> False
   | Inr envelope \<Rightarrow>
       decrypt (test_platform net_down) envelope ''correct horse'' = Inr createEmptyData"
proof -
  obtain envelope where
    enc: "encrypt (test_platform net_down) test_entropy createEmptyData ''correct horse''
          = Inr envelope"
    using test_encrypt by blast
  from encrypt_decrypt_round_trip [OF test_aead test_serial enc] enc
  show ?thesis by simp
qed

text \<open>
  C4: the base64 decoding of an envelope produced by \<open>encrypt\<close> is the 16-byte salt,
  followed by the 12-byte nonce, followed by the output of the cipher; the slices
  \<open>(0, 16)\<close>, \<open>(16, 28)\<close> and \<open>(28)\<close> that \<open>decrypt\<close> takes are exactly these three parts,
  so \<open>decrypt\<close> derives its key from that salt and hands that nonce and that ciphertext
  to the cipher.
\<close>

theorem envelope_layout:
  assumes "encrypt env rnd d p = Inr envelope"
  shows "\<exists>key str ct.
           deriveKey env p (getRandomValues rnd 0 16) = Inr key
         \<and> JSON_stringify env d = Inr str
         \<and> aes_gcm_encrypt env key (getRandomValues rnd 16 12) (utf8_encode env str) = Inr ct
         \<and> base64ToArrayBuffer envelope
             = Some (getRandomValues rnd 0 16 @ getRandomValues rnd 16 12 @ ct)
         \<and> length (getRandomValues rnd 0 16) = 16
         \<and> length (getRandomValues rnd 16 12) = 12
         \<and> slice (getRandomValues rnd 0 16 @ getRandomValues rnd 16 12 @ ct) 0 16
             = getRandomValues rnd 0 16
         \<and> slice (getRandomValues rnd 0 16 @ getRandomValues rnd 16 12 @ ct) 16 28
             = getRandomValues rnd 16 12
         \<and> slice_from (getRandomValues rnd 0 16 @ getRandomValues rnd 16 12 @ ct) 28 = ct
         \<and> (\<forall>p'. decrypt_try env envelope p' =
               (case deriveKey env p' (getRandomValues rnd 0 16) of
                  Inl e \<Rightarrow> Inl e
                | Inr k \<Rightarrow>
               (case aes_gcm_decrypt env k (getRandomValues rnd 16 12) ct of
                  Inl e \<Rightarrow> Inl e
                | Inr decryptedBuffer \<Rightarrow> JSON_parse env (utf8_decode env decryptedBuffer))))"
proof -
  let ?salt = "getRandomValues rnd 0 16" and ?iv = "getRandomValues rnd 16 12"
  from assms obtain key str ct where
    key: "deriveKey env p ?salt = Inr key" and
    str: "JSON_stringify env d = Inr str" and
    ct: "aes_gcm_encrypt env key ?iv (utf8_encode env str) = Inr ct" and
    envelope: "envelope = arrayBufferToBase64 (?salt @ ?iv @ ct)"
    by (rule encrypt_Inr)
  have len: "length ?salt = 16" "length ?iv = 12"
    by (simp_all add: length_getRandomValues)
  have "base64ToArrayBuffer envelope = Some (?salt @ ?iv @ ct)"
    by (simp add: envelope decode_encode)
  moreover note key str ct len envelope_slices [OF len, of ct]
  moreover have "\<forall>p'. decrypt_try env envelope p' =
               (case deriveKey env p' ?salt of
                  Inl e \<Rightarrow> Inl e
                | Inr k \<Rightarrow>
               (case aes_gcm_decrypt env k ?iv ct of
                  Inl e \<Rightarrow> Inl e
                | Inr decryptedBuffer \<Rightarrow> JSON_parse env (utf8_decode env decryptedBuffer)))"
    by (simp add: envelope decrypt_try_envelope [OF len])
  ultimately show ?thesis by blast
qed

theorem envelope_layout_witness:
  "case encrypt (test_platform net_down) test_entropy createEmptyData ''correct horse'' of
     Inl e \<Rightarrow> False
   | Inr envelope \<Rightarrow>
       map_option (\<lambda>c. (slice c 0 16, slice c 16 28)) (base64ToArrayBuffer envelope)
       = Some (getRandomValues test_entropy 0 16, getRandomValues test_entropy 16 12)"
proof -
  obtain envelope where
    enc: "encrypt (test_platform net_down) test_entropy createEmptyData ''correct horse''
          = Inr envelope"
    using test_encrypt by blast
  from envelope_layout [OF enc] enc show ?thesis by auto
qed

text \<open>
  C2, as amended: every failure of \<open>decrypt\<close> is an \<open>Error\<close> with one of two messages,
  which are never equal. Whatever step fails (\<open>atob\<close>, the key derivation, the cipher,
  \<open>JSON.parse\<close>), its error is reported by one rule: an error named \<open>OperationError\<close> or
  with "decrypt" in its message gives the fixed message "Decryption failed - incorrect
  password or corrupted data", any other gives "Failed to decrypt data: " followed by its
  message.
\<close>

theorem decrypt_failure_messages:
  "(\<forall>e. decrypt env envelope p = Inl e
        \<longrightarrow> e = decryption_failed \<or> (\<exists>cause. e = failed_to_decrypt cause))
   \<and> (base64ToArrayBuffer envelope = None
        \<longrightarrow> decrypt env envelope p
            = Inl (reported (JSError ''InvalidCharacterError'' (atob_message env))))
   \<and> (\<forall>c u. base64ToArrayBuffer envelope = Some c
        \<and> deriveKey env p (slice c 0 16) = Inl u
        \<longrightarrow> decrypt env envelope p = Inl (reported u))
   \<and> (\<forall>c key u. base64ToArrayBuffer envelope = Some c
        \<and> deriveKey env p (slice c 0 16) = Inr key
        \<and> aes_gcm_decrypt env key (slice c 16 28) (slice_from c 28) = Inl u
        \<longrightarrow> decrypt env envelope p = Inl (reported u))
   \<and> (\<forall>c key buf u. base64ToArrayBuffer envelope = Some c
        \<and> deriveKey env p (slice c 0 16) = Inr key
        \<and> aes_gcm_decrypt env key (slice c 16 28) (slice_from c 28) = Inr buf
        \<and> JSON_parse env (utf8_decode env buf) = Inl u
        \<longrightarrow> decrypt env envelope p = Inl (reported u))
   \<and> (\<forall>c key buf d. base64ToArrayBuffer envelope = Some c
        \<and> deriveKey env p (slice c 0 16) = Inr key
        \<and> aes_gcm_decrypt env key (slice c 16 28) (slice_from c 28) = Inr buf
        \<and> JSON_parse env (utf8_decode env buf) = Inr d
        \<longrightarrow> decrypt env envelope p = Inr d)
   \<and> (\<forall>u. name u = ''OperationError'' \<or> str_includes (message u) ''decrypt''
        \<longrightarrow> reported u = decryption_failed)
   \<and> (\<forall>u. name u \<noteq> ''OperationError'' \<and> \<not> str_includes (message u) ''decrypt''
        \<longrightarrow> reported u = failed_to_decrypt (message u))
   \<and> (\<forall>cause. decryption_failed \<noteq> failed_to_decrypt cause)"
proof -
  have shape: "reported u = decryption_failed \<or> (\<exists>cause. reported u = failed_to_decrypt cause)"
    for u
    by (auto simp add: reported_def)
  have eq: "decrypt env envelope p =
        (case decrypt_try env envelope p of Inl u \<Rightarrow> Inl (reported u) | Inr d \<Rightarrow> Inr d)"
    by (simp add: decrypt_def reported_def decryption_failed_def failed_to_decrypt_def
        split: sum.splits)
  have "e = decryption_failed \<or> (\<exists>cause. e = failed_to_decrypt cause)"
    if "decrypt env envelope p = Inl e" for e
    using that shape by (auto simp add: eq split: sum.splits)
  moreover have "decryption_failed \<noteq> failed_to_decrypt cause" for cause
    by (simp add: decryption_failed_def failed_to_decrypt_def Error_def)
  ultimately show ?thesis
    by (auto simp add: eq decrypt_try_def Let_def reported_def)
qed

theorem decrypt_failure_messages_witness:
  "decrypt (test_platform net_down) ''AAAA'' ''correct horse'' = Inl decryption_failed"
proof -
  have "base64ToArrayBuffer ''AAAA'' = Some [0, 0, 0]"
    by (simp add: base64ToArrayBuffer_def atob_def ascii_whitespace_def strip_padding_def
        b64_index_def b64_alphabet_def fromCharCode_def)
  moreover have "deriveKey (test_platform net_down) ''correct horse'' (slice [0, 0, 0] 0 16)
                 = Inr (map (\<lambda>c. of_nat (of_char c)) ''correct horse'' @ [0, 0, 0])"
    by (simp add: deriveKey_def test_platform_def any_platform_def slice_def)
  moreover have "aes_gcm_decrypt (test_platform net_down)
                   (map (\<lambda>c. of_nat (of_char c)) ''correct horse'' @ [0, 0, 0])
                   (slice [0, 0, 0] 16 28) (slice_from [0, 0, 0] 28)
                 = Inl (JSError ''OperationError''
                         ''The operation failed for an operation-specific reason'')"
    by (simp add: test_platform_def any_platform_def test_decrypt_def slice_def slice_from_def)
  moreover have "reported (JSError ''OperationError''
                   ''The operation failed for an operation-specific reason'') = decryption_failed"
    by (simp add: reported_def)
  ultimately show ?thesis
    using decrypt_failure_messages
      [of "test_platform net_down" "''AAAA''" "''correct horse''"]
    by metis
qed

text \<open>
  C2 as stated fails: an envelope that is not base64 and an envelope that is too short
  are rejected with two different errors.
\<close>

theorem decrypt_two_errors:
  "decrypt (test_platform net_down) ''!'' ''correct horse''
     = Inl (Error ''Failed to decrypt data: String contains an invalid character'')
   \<and> decrypt (test_platform net_down) ''AAAA'' ''correct horse''
     = Inl (Error ''Decryption failed - incorrect password or corrupted data'')
   \<and> Error ''Failed to decrypt data: String contains an invalid character''
     \<noteq> Error ''Decryption failed - incorrect password or corrupted data''"
  by (simp add: decrypt_def decrypt_try_def base64ToArrayBuffer_def atob_def ascii_whitespace_def
      strip_padding_def b64_index_def b64_alphabet_def slice_def slice_from_def deriveKey_def
      test_platform_def any_platform_def test_decrypt_def Error_def Let_def)

section \<open>Fetching the stored document\<close>

text \<open>
  C5: when the response to the request has status 404, \<open>fetchEncryptedData\<close> returns
  \<open>{content: null, sha: null}\<close> as a result; a failure of the network is rethrown, and every
  other status outside 200..299 (such as 401 or 403) is thrown as an error. A result with
  \<open>null\<close> content arises from status 404 only, so "not found" is never confused with a
  transport failure.
\<close>

theorem not_found_is_not_an_error:
  "(\<forall>r. http_fetch env (get_request token) = Response r \<and> status r = 404
        \<longrightarrow> fetchEncryptedData env token = Inr \<lparr>content = None, sha = JNull\<rparr>)
   \<and> (\<forall>e. http_fetch env (get_request token) = NetworkError e
        \<longrightarrow> fetchEncryptedData env token = Inl e)
   \<and> (\<forall>r. http_fetch env (get_request token) = Response r \<and> status r \<noteq> 404 \<and> \<not> ok r
        \<longrightarrow> fetchEncryptedData env token = Inl (api_error env r))
   \<and> (\<forall>f. fetchEncryptedData env token = Inr f \<and> content f = None
        \<longrightarrow> (\<exists>r. http_fetch env (get_request token) = Response r \<and> status r = 404))"
  by (auto simp add: fetchEncryptedData_def
      split: http_outcome.splits sum.splits jsvalue.splits option.splits if_splits)

theorem not_found_is_not_an_error_witness:
  "fetchEncryptedData (test_platform net_not_found) ''github_pat_x''
     = Inr \<lparr>content = None, sha = JNull\<rparr>
   \<and> fetchEncryptedData (test_platform net_down) ''github_pat_x''
     = Inl (JSError ''TypeError'' ''Failed to fetch'')
   \<and> fetchEncryptedData (test_platform net_conflict) ''github_pat_x''
     = Inl (Error ''GitHub API error: is at a different sha'')"
proof -
  have "http_fetch (test_platform net_not_found) (get_request ''github_pat_x'')
        = Response \<lparr>status = 404, statusText = ''Not Found'',
               json = Inr (JObject [(''message'', JString ''Not Found'')])\<rparr>"
    by (simp add: test_platform_def any_platform_def net_not_found_def)
  moreover have "http_fetch (test_platform net_down) (get_request ''github_pat_x'')
        = NetworkError (JSError ''TypeError'' ''Failed to fetch'')"
    by (simp add: test_platform_def any_platform_def net_down_def)
  moreover have "http_fetch (test_platform net_conflict) (get_request ''github_pat_x'')
        = Response \<lparr>status = 409, statusText = ''Conflict'',
               json = Inr (JObject [(''message'', JString ''is at a different sha'')])\<rparr>"
    by (simp add: test_platform_def any_platform_def net_conflict_def)
  moreover have "api_error (test_platform net_conflict)
         \<lparr>status = 409, statusText = ''Conflict'',
               json = Inr (JObject [(''message'', JString ''is at a different sha'')])\<rparr>
        = Error ''GitHub API error: is at a different sha''"
    by (simp add: api_error_def get_property_def)
  ultimately show ?thesis
    using not_found_is_not_an_error [of "test_platform net_not_found" "''github_pat_x''"]
      not_found_is_not_an_error [of "test_platform net_down" "''github_pat_x''"]
      not_found_is_not_an_error [of "test_platform net_conflict" "''github_pat_x''"]
    by (simp add: ok_def)
qed

section \<open>Submitting an entry\<close>

lemma saveData_cases:
  "saveData env rnd st msg = (None, st') \<Longrightarrow> \<exists>s. st' = st\<lparr>currentSHA := s\<rparr>"
  "saveData env rnd st msg = (Some e, st') \<Longrightarrow> st' = st"
  by (auto simp add: saveData_def split: sum.splits)

lemma handleEntrySubmit_eq:
  "handleEntrySubmit env rnd uuid now f st
   = saveData env rnd (pushed st (new_entry uuid now f)) ''Add new wheel-of-life entry''"
proof -
  have "(\<lambda>key. case key of
                   Body \<Rightarrow> slider_value f Body | Mind \<Rightarrow> slider_value f Mind
                 | Soul \<Rightarrow> slider_value f Soul | Friends \<Rightarrow> slider_value f Friends
                 | Romance \<Rightarrow> slider_value f Romance | Family \<Rightarrow> slider_value f Family
                 | Mission \<Rightarrow> slider_value f Mission | Money \<Rightarrow> slider_value f Money
                 | Growth \<Rightarrow> slider_value f Growth) = slider_value f"
    by (rule ext) (simp split: rating_key.splits)
  then show ?thesis
    by (simp add: handleEntrySubmit_def new_entry_def pushed_def Let_def)
qed

lemma submit_result:
  "handleEntrySubmit env rnd uuid now f st = (r, st') \<Longrightarrow>
     entries (data st') = entries (data st) @ [new_entry uuid now f]
     \<and> (r \<noteq> None \<longrightarrow> st' = pushed st (new_entry uuid now f))"
proof (cases r)
  case None
  assume "handleEntrySubmit env rnd uuid now f st = (r, st')"
  with None have "\<exists>s. st' = (pushed st (new_entry uuid now f))\<lparr>currentSHA := s\<rparr>"
    unfolding handleEntrySubmit_eq by (simp add: saveData_cases(1))
  with None show ?thesis by (auto simp add: pushed_def)
next
  case (Some e)
  assume "handleEntrySubmit env rnd uuid now f st = (r, st')"
  with Some have "st' = pushed st (new_entry uuid now f)"
    unfolding handleEntrySubmit_eq by (simp add: saveData_cases(2))
  with Some show ?thesis by (simp add: pushed_def)
qed

text \<open>
  C9: the handler pushes the new entry before it saves. Whenever it ends with an error,
  the entry list of the state is the old list followed by the new entry and \<open>currentSHA\<close>
  is what it was: nothing is rolled back. Both an error of \<open>encrypt\<close> and an error of
  \<open>commitEncryptedData\<close> end it that way.
\<close>

theorem failed_save_keeps_entry:
  "(\<forall>e st'. handleEntrySubmit env rnd uuid now f st = (Some e, st')
       \<longrightarrow> entries (data st') = entries (data st) @ [new_entry uuid now f]
           \<and> currentSHA st' = currentSHA st)
   \<and> (\<forall>e. encrypt env rnd (data (pushed st (new_entry uuid now f))) (password st) = Inl e
       \<longrightarrow> handleEntrySubmit env rnd uuid now f st = (Some e, pushed st (new_entry uuid now f)))
   \<and> (\<forall>c e. encrypt env rnd (data (pushed st (new_entry uuid now f))) (password st) = Inr c
         \<and> commitEncryptedData env (pat st) c (currentSHA st) ''Add new wheel-of-life entry''
             = Inl e
       \<longrightarrow> handleEntrySubmit env rnd uuid now f st = (Some e, pushed st (new_entry uuid now f)))"
proof -
  have "entries (data st') = entries (data st) @ [new_entry uuid now f]
        \<and> currentSHA st' = currentSHA st"
    if "handleEntrySubmit env rnd uuid now f st = (Some e, st')" for e st'
    using submit_result [OF that] by (simp add: pushed_def)
  moreover have "handleEntrySubmit env rnd uuid now f st
                 = (Some e, pushed st (new_entry uuid now f))"
    if "encrypt env rnd (data (pushed st (new_entry uuid now f))) (password st) = Inl e" for e
    using that by (simp add: handleEntrySubmit_eq saveData_def pushed_def)
  moreover have "handleEntrySubmit env rnd uuid now f st
                 = (Some e, pushed st (new_entry uuid now f))"
    if "encrypt env rnd (data (pushed st (new_entry uuid now f))) (password st) = Inr c
        \<and> commitEncryptedData env (pat st) c (currentSHA st) ''Add new wheel-of-life entry''
            = Inl e" for c e
    using that by (simp add: handleEntrySubmit_eq saveData_def pushed_def)
  ultimately show ?thesis by blast
qed

lemma test_platform_sel:
  "http_fetch (test_platform net) = net"
  "type_error_message (test_platform net) = ''value is undefined''"
  by (simp_all add: test_platform_def any_platform_def)

lemma test_encrypt_any: "\<exists>envelope. encrypt (test_platform net) rnd d p = Inr envelope"
  by (simp add: encrypt_def encrypt_try_eq deriveKey_def test_platform_def any_platform_def test_stringify_def)

lemma test_commit_conflict:
  "commitEncryptedData (test_platform net_conflict) token c s msg
   = Inl (Error ''GitHub API error: is at a different sha'')"
  by (simp add: commitEncryptedData_def test_platform_sel net_conflict_def ok_def api_error_def
      get_property_def Let_def)

theorem failed_save_keeps_entry_witness:
  "handleEntrySubmit (test_platform net_conflict) test_entropy ''id-1'' 1700000000000
     (test_form 7) test_state
   = (Some (Error ''GitHub API error: is at a different sha''),
      pushed test_state (new_entry ''id-1'' 1700000000000 (test_form 7)))
   \<and> entries (data (pushed test_state (new_entry ''id-1'' 1700000000000 (test_form 7))))
     = [new_entry ''id-1'' 1700000000000 (test_form 7)]
   \<and> currentSHA (pushed test_state (new_entry ''id-1'' 1700000000000 (test_form 7))) = JNull"
proof -
  let ?st = "pushed test_state (new_entry ''id-1'' 1700000000000 (test_form 7))"
  obtain c where
    "encrypt (test_platform net_conflict) test_entropy (data ?st) (password test_state) = Inr c"
    using test_encrypt_any by blast
  moreover have "commitEncryptedData (test_platform net_conflict) (pat test_state) c
                   (currentSHA test_state) ''Add new wheel-of-life entry''
                 = Inl (Error ''GitHub API error: is at a different sha'')"
    by (rule test_commit_conflict)
  ultimately have "handleEntrySubmit (test_platform net_conflict) test_entropy ''id-1''
                     1700000000000 (test_form 7) test_state
                   = (Some (Error ''GitHub API error: is at a different sha''), ?st)"
    using failed_save_keeps_entry
      [of "test_platform net_conflict" test_entropy "''id-1''" 1700000000000 "test_form 7"
        test_state]
    by blast
  then show ?thesis
    by (simp add: pushed_def test_state_def createEmptyData_def)
qed





section \<open>The derived views\<close>

lemma foldl_plus: "foldl (\<lambda>a b. a + f b) s xs = s + sum_list (map f xs)" for s :: real
  by (induction xs arbitrary: s) simp_all

lemma Math_round_round: "Math_round x = of_int (round x)"
  by (simp add: Math_round_def round_def)

lemma getBalanceScore_eq:
  "getBalanceScore r = round_to_one_decimal (max 0 (10 - population_stddev (Object_values r)))"
proof -
  have "foldl (\<lambda>a b. a + b) 0 xs = sum_list xs" for xs :: "real list"
    using foldl_plus [of "\<lambda>b. b" 0 xs] by simp
  moreover have "foldl (\<lambda>sum val. sum + (val - m) ^ 2) 0 xs = sum_list (map (\<lambda>x. (x - m) ^ 2) xs)"
    for xs :: "real list" and m
    using foldl_plus [of "\<lambda>val. (val - m) ^ 2" 0 xs] by simp
  ultimately show ?thesis
    by (simp add: getBalanceScore_def Let_def population_stddev_def mean_def
        round_to_one_decimal_def Math_round_round)
qed

lemma round_to_one_decimal_near: "\<bar>round_to_one_decimal x - x\<bar> \<le> 1 / 20"
proof -
  have "\<bar>of_int (round (x * 10)) - x * 10\<bar> \<le> 1 / 2"
    by (rule of_int_round_abs_le)
  then show ?thesis by (simp add: round_to_one_decimal_def field_simps)
qed

lemma all_fives: "getBalanceScore (\<lambda>key. 5) = 10"
  by (simp add: getBalanceScore_def Object_values_def labels_def Math_round_def)

lemma stddev_zero_tens:
  "population_stddev (Object_values (\<lambda>key. if key = k then 0 else 10)) = sqrt (800 / 81)"
  by (cases k) (simp_all add: population_stddev_def mean_def Object_values_def labels_def
      power2_eq_square)

lemma sqrt_800_81: "61 / 20 < sqrt (800 / 81)" "sqrt (800 / 81) \<le> 63 / 20"
proof -
  show "61 / 20 < sqrt (800 / 81)"
    by (rule real_less_rsqrt) (simp add: power2_eq_square)
  show "sqrt (800 / 81) \<le> 63 / 20"
    by (rule real_le_lsqrt) (simp_all add: power2_eq_square)
qed

lemma one_zero: "getBalanceScore (\<lambda>key. if key = k then 0 else 10) = 69 / 10"
proof -
  let ?s = "sqrt (800 / 81)"
  have "round (max 0 (10 - ?s) * 10) = 69"
    using sqrt_800_81 by (simp add: round_def floor_eq_iff max_def)
  then show ?thesis
    by (simp add: getBalanceScore_eq stddev_zero_tens round_to_one_decimal_def)
qed

text \<open>
  C6: the balance score is \<open>max(0, 10 - s)\<close> rounded to one decimal place, \<open>s\<close> being the
  population standard deviation of the nine values: it is a multiple of one tenth at most
  a twentieth away. Nine fives give exactly 10; one 0 among eight 10s gives less than 10.
\<close>

theorem balance_score:
  "getBalanceScore r = round_to_one_decimal (max 0 (10 - population_stddev (Object_values r)))
   \<and> \<bar>getBalanceScore r - max 0 (10 - population_stddev (Object_values r))\<bar> \<le> 1 / 20
   \<and> length (Object_values r) = 9
   \<and> getBalanceScore (\<lambda>key. 5) = 10
   \<and> (\<forall>k. getBalanceScore (\<lambda>key. if key = k then 0 else 10) < 10)"
proof -
  have near: "\<bar>getBalanceScore r - max 0 (10 - population_stddev (Object_values r))\<bar> \<le> 1 / 20"
    unfolding getBalanceScore_eq by (rule round_to_one_decimal_near)
  have nine: "length (Object_values r) = 9"
    by (simp add: Object_values_def labels_def)
  have "\<forall>k. getBalanceScore (\<lambda>key. if key = k then 0 else 10) < 10"
    by (simp add: one_zero)
  with getBalanceScore_eq [of r] near nine all_fives show ?thesis
    by blast
qed

lemma date_ge_le: "date_ge a b = date_le b a"
  by (cases a; cases b) simp_all

lemma averages_fold:
  "fold (\<lambda>key averages. averages(key \<mapsto> g key)) labels Map.empty = (\<lambda>key. Some (g key))"
proof
  fix key
  show "fold (\<lambda>key averages. averages(key \<mapsto> g key)) labels Map.empty key = Some (g key)"
    by (cases key) (simp_all add: labels_def)
qed

lemma key_average_eq:
  "key_average es key = round_to_one_decimal (mean (key_values es key))"
  using foldl_plus [of "\<lambda>e. ratings e key" 0 es]
  by (simp add: key_average_def mean_def key_values_def round_to_one_decimal_def
      Math_round_round comp_def)

lemma MakeDate_Day: "MakeDate (Day t - d) (TimeWithinDay t) = t - d * 86400000"
proof -
  have "(t div 86400000 - d) * 86400000 + t mod 86400000 = t - d * 86400000"
    by (simp add: algebra_simps)
  then show ?thesis
    by (simp add: MakeDate_def Day_def TimeWithinDay_def msPerDay_def)
qed

lemma TimeClip_eq:
  "TimeClip u
   = (if - 8640000000000000 \<le> u \<and> u \<le> 8640000000000000 then Date u else InvalidDate)"
  by (auto simp add: TimeClip_def)

lemma cutoffDate_window_start: "cutoffDate clk d = window_start clk d"
  by (simp add: cutoffDate_def window_start_def MakeDate_Day TimeClip_eq LocalTime_def UTC_def
      wall_clock_def instant_showing_def Let_def)

text \<open>
  C7, as amended: \<open>calculateAverages\<close> keeps the entries at or after the start of the
  window (all entries without a window), returns \<open>null\<close> when none is left, and otherwise
  gives for each of the nine keys the arithmetic mean of that key over the kept entries,
  rounded to one decimal place. The window starts at the instant that shows the present
  local time of day, the given number of calendar days earlier; that is now minus the days
  times 24 hours when the offset of local time is the same at both instants.
\<close>

theorem period_averages:
  "calculateAverages clk es days =
     (if in_window clk days es = [] then None
      else Some (\<lambda>key. Some (round_to_one_decimal
                   (mean (key_values (in_window clk days es) key)))))
   \<and> (\<forall>d. LocalTZA clk (wall_clock clk (current_time clk) - d * 86400000) False
            = LocalTZA clk (current_time clk) True
          \<and> \<bar>current_time clk - d * 86400000\<bar> \<le> 8640000000000000
        \<longrightarrow> window_start clk d = Date (current_time clk - d * 86400000))
   \<and> (\<forall>d. window_start clk d = InvalidDate \<longrightarrow> calculateAverages clk es (Some d) = None)"
proof -
  have "calculateAverages clk es days =
     (if in_window clk days es = [] then None
      else Some (\<lambda>key. Some (round_to_one_decimal
                   (mean (key_values (in_window clk days es) key)))))"
    by (cases days)
      (auto simp add: calculateAverages_def in_window_def cutoffDate_window_start date_ge_le
        averages_fold key_average_eq Let_def)
  moreover have "window_start clk d = Date (current_time clk - d * 86400000)"
    if "LocalTZA clk (wall_clock clk (current_time clk) - d * 86400000) False
          = LocalTZA clk (current_time clk) True
        \<and> \<bar>current_time clk - d * 86400000\<bar> \<le> 8640000000000000" for d
    using that by (auto simp add: window_start_def instant_showing_def wall_clock_def Let_def)
  moreover have "calculateAverages clk es (Some d) = None"
    if "window_start clk d = InvalidDate" for d
    using that by (simp add: calculateAverages_def cutoffDate_window_start)
  ultimately show ?thesis by blast
qed

theorem period_averages_witness:
  "calculateAverages (utc_clock 864000000) [rated 0 4, rated 777600000 7] (Some 7)
     = Some (\<lambda>key. Some 7)
   \<and> calculateAverages (utc_clock 864000000) [rated 0 4] (Some 7) = None
   \<and> window_start (utc_clock 864000000) 7 = Date 259200000
   \<and> calculateAverages (utc_clock 864000000) [rated 0 4] (Some 1000000000) = None"
  using period_averages [of "utc_clock 864000000" "[rated 0 4, rated 777600000 7]" "Some 7"]
    period_averages [of "utc_clock 864000000" "[rated 0 4]" "Some 7"]
    period_averages [of "utc_clock 864000000" "[rated 0 4]" "Some 1000000000"]
  by (simp add: in_window_def window_start_def instant_showing_def wall_clock_def utc_clock_def
      rated_def key_values_def mean_def round_to_one_decimal_def)

text \<open>
  C7 as stated fails twice: for the body ratings 1, 1 and 2 the result is 1.3, not the
  mean 4/3; and across the change of the clock on 1 November 2026 the window of 7 days
  starts an hour before now minus 7 times 24 hours, so that an entry half an hour before
  that instant is kept and averaged.
\<close>

theorem period_averages_differs:
  "average_of (calculateAverages (utc_clock 0) [rated 0 1, rated 0 1, rated 0 2] None) Body
     = Some (13 / 10)
   \<and> mean (key_values [rated 0 1, rated 0 1, rated 0 2] Body) = 4 / 3
   \<and> average_of (calculateAverages (utc_clock 0) [rated 0 1, rated 0 1, rated 0 2] None) Body
      \<noteq> Some (mean (key_values [rated 0 1, rated 0 1, rated 0 2] Body))
   \<and> average_of (calculateAverages autumn_clock [rated 1793277000000 3] (Some 7)) Body = Some 3
   \<and> \<not> current_time autumn_clock - 7 * 86400000 \<le> 1793277000000
   \<and> cutoffDate autumn_clock 7 = Date 1793275200000"
  by (simp add: calculateAverages_def average_of_def averages_fold key_average_def rated_def
      Math_round_def mean_def key_values_def cutoffDate_def LocalTime_def UTC_def Day_def
      TimeWithinDay_def MakeDate_def TimeClip_def msPerDay_def autumn_clock_def Let_def)

text \<open>
  C8: \<open>filterByDateRange\<close> returns, in their order, exactly the entries whose timestamp lies
  within the bounds, both inclusive; an absent bound does not restrict, and without bounds
  the list is returned as it is.
\<close>

theorem filter_by_range:
  "filterByDateRange es start end = filter (within_range start end) es
   \<and> subseq (filterByDateRange es start end) es
   \<and> filterByDateRange es None None = es
   \<and> (\<forall>e a b t. timestamp e = Date t \<longrightarrow>
        (e \<in> set (filterByDateRange es (Some (Date a)) (Some (Date b)))
           \<longleftrightarrow> e \<in> set es \<and> a \<le> t \<and> t \<le> b)
        \<and> (e \<in> set (filterByDateRange es (Some (Date a)) None) \<longleftrightarrow> e \<in> set es \<and> a \<le> t)
        \<and> (e \<in> set (filterByDateRange es None (Some (Date b))) \<longleftrightarrow> e \<in> set es \<and> t \<le> b))"
proof -
  have eq: "filterByDateRange es s d = filter (within_range s d) es" for s d
    by (cases s; cases d)
      (simp_all add: filterByDateRange_def within_range_def [abs_def] date_ge_le Let_def)
  show ?thesis
    by (auto simp add: eq within_range_def)
qed


theorem balance_score_witness:
  "getBalanceScore (\<lambda>key. if key = Body then 0 else 10) < 10
   \<and> getBalanceScore (\<lambda>key. 5) = 10"
  using balance_score [of "\<lambda>key. 5"] by blast

theorem filter_by_range_witness:
  "filterByDateRange [rated 5 1, rated 10 2, rated 20 3, rated 21 4] (Some (Date 10)) (Some (Date 20))
   = [rated 10 2, rated 20 3]"
  using filter_by_range
    [of "[rated 5 1, rated 10 2, rated 20 3, rated 21 4]" "Some (Date 10)" "Some (Date 20)",
      THEN conjunct1]
  by (simp add: within_range_def rated_def)

end
